theory Spec2Isabelle
  imports Main "HOL-Library.AList"
begin

section \<open>Data model\<close>

text \<open>
  The resolvers of \<^verbatim>\<open>src/resolvers/Mutation.js\<close> and \<^verbatim>\<open>src/resolvers/Query.js\<close>
  are sequences of awaited calls to three collaborators: the persistence client
  (\<^verbatim>\<open>ctx.db.query\<close>, \<^verbatim>\<open>ctx.db.mutation\<close>), the payment client
  (\<^verbatim>\<open>stripe.charges.create\<close>) and the mail transport. A resolver is modelled as a
  function from a world to a result and the world after it; a thrown error is the left
  summand of the result, and the effects made before the throw stay in the world.

  Record identifiers are opaque, non-empty strings in the program; here they are natural
  numbers, and an absent \<^verbatim>\<open>ctx.request.userId\<close> is \<open>None\<close>. The numbers of the
  program are integer-valued doubles, modelled as integers; the product and the sum of the
  cart's reduction, which can leave the range of exact integers, are rounded as the
  program rounds them (\<open>js_number\<close> below). Quantities and timestamps stay far inside
  that range, so adding one to a quantity or an hour to a timestamp is exact.

  Modelled are the mutations \<open>createItem\<close>, \<open>updateItem\<close>, \<open>deleteItem\<close>,
  \<open>signout\<close>, \<open>requestReset\<close>, \<open>resetPassword\<close>, \<open>updatePermissions\<close>,
  \<open>addToCart\<close>, \<open>removeFromCart\<close> and \<open>createOrder\<close>, and the query \<open>order\<close>.
  The mutations \<open>signup\<close> and \<open>signin\<close> and the other queries are left out.
\<close>

type_synonym ident = nat

text \<open>A JavaScript object literal: its keys in insertion order, each with its value.\<close>

datatype val =
  Str string
  | Num int
  | Id ident
  | Null
  | Connect ident
  | SetList "string list"
  | Create "(string \<times> val) list list"

type_synonym obj = "(string \<times> val) list"

record User =
  user_id :: ident
  user_name :: string
  user_email :: string
  user_password :: string
  user_permissions :: "string list"
  user_resetToken :: "string option"
  user_resetTokenExpiry :: "int option"

record Item =
  item_id :: ident
  item_title :: string
  item_description :: string
  item_image :: string
  item_largeImage :: string
  item_price :: int
  item_user :: ident

record CartItem =
  cartItem_id :: ident
  cartItem_quantity :: int
  cartItem_user :: ident
  cartItem_item :: ident

record Order =
  order_id :: ident
  order_total :: int
  order_charge :: string
  order_items :: "obj list"
  order_user :: ident

text \<open>The payment collaborator: \<^verbatim>\<open>charge({amount, currency, source}) -> {id, amount}\<close>.\<close>

record charge_request =
  cr_amount :: int
  cr_currency :: string
  cr_source :: string

record charge =
  charge_id :: string
  charge_amount :: int

text \<open>
  Every error the resolvers can end with: \<^verbatim>\<open>throw new Error(message)\<close>, the
  \<^verbatim>\<open>TypeError\<close> of reading a property of \<^verbatim>\<open>null\<close> or \<^verbatim>\<open>undefined\<close>, a
  rejection of the payment collaborator (passed on unchanged), and a rejection of the
  persistence collaborator (an update or delete of a record that does not exist, a create
  that lacks a required field, or a write the store refuses).
\<close>

datatype error = Error string | TypeError | StripeError string | PrismaError

text \<open>
  The calls a resolver makes to its collaborators, in the order it makes them. A call to
  the persistence client is logged with its operation and its \<^verbatim>\<open>data\<close> argument
  (the empty object for a query or a delete).
\<close>

datatype call =
  Db string obj
  | Charge charge_request
  | Mail string
  | SetCookie ident
  | ClearCookie

text \<open>
  The world: the four tables of the store, the next identifier it hands out, the trace of
  calls, and the operations that the store refuses at present (\<open>rejects\<close>). The
  resolvers await each call and have no transaction, so a write that is refused after the
  charge was captured leaves the earlier effects in place; the two writes of the checkout
  that follow the charge consult \<open>rejects\<close>.
\<close>

record world =
  tbl_users :: "User list"
  tbl_items :: "Item list"
  tbl_cartItems :: "CartItem list"
  tbl_orders :: "Order list"
  nextId :: ident
  trace :: "call list"
  rejects :: "string list"

text \<open>\<^verbatim>\<open>ctx.request\<close>: the identity a middleware outside these files attached.\<close>

record request =
  req_userId :: "ident option"
  req_user :: "User option"

section \<open>The persistence collaborator\<close>

text \<open>
  The persistence client is a library outside the repository. It is modelled as an
  in-memory store of four tables that logs every call in the trace and answers it; the
  order write and the cart delete of the checkout are refused when the world lists them
  in \<open>rejects\<close>. A
  \<^verbatim>\<open>where\<close> on a unique field selects the records that carry the value (at most one
  in a store whose unique fields are unique); an update or delete whose \<^verbatim>\<open>where\<close>
  selects no record is rejected, and so is a create whose \<^verbatim>\<open>data\<close> lacks a required
  field. An update writes the fields its \<^verbatim>\<open>data\<close> names and keeps the others.
  Relations are stored as identifiers; a nested fetch of a relation whose target no longer
  exists reads as \<^verbatim>\<open>null\<close>.
\<close>

definition logcall :: "call \<Rightarrow> world \<Rightarrow> world" where
  "logcall c w = w\<lparr>trace := trace w @ [c]\<rparr>"

definition fresh :: "world \<Rightarrow> ident \<times> world" where
  "fresh w = (nextId w, w\<lparr>nextId := Suc (nextId w)\<rparr>)"

datatype user_where = WhereId ident | WhereEmail string

fun user_matches :: "user_where \<Rightarrow> User \<Rightarrow> bool" where
  "user_matches (WhereId i) u = (user_id u = i)"
| "user_matches (WhereEmail e) u = (user_email u = e)"

definition db_query_user :: "user_where \<Rightarrow> world \<Rightarrow> User option \<times> world" where
  "db_query_user wh w =
     (List.find (user_matches wh) (tbl_users w), logcall (Db ''query.user'' []) w)"

text \<open>\<^verbatim>\<open>users({ where: { resetToken, resetTokenExpiry_gte } })\<close>\<close>

definition db_query_users :: "string \<Rightarrow> int \<Rightarrow> world \<Rightarrow> User list \<times> world" where
  "db_query_users resetToken resetTokenExpiry_gte w =
     (filter (\<lambda>u. user_resetToken u = Some resetToken \<and>
                  (case user_resetTokenExpiry u of
                     None \<Rightarrow> False
                   | Some expiry \<Rightarrow> expiry \<ge> resetTokenExpiry_gte))
        (tbl_users w),
      logcall (Db ''query.users'' []) w)"

definition db_query_item :: "ident \<Rightarrow> world \<Rightarrow> Item option \<times> world" where
  "db_query_item i w =
     (List.find (\<lambda>it. item_id it = i) (tbl_items w), logcall (Db ''query.item'' []) w)"

definition db_query_cartItem :: "ident \<Rightarrow> world \<Rightarrow> CartItem option \<times> world" where
  "db_query_cartItem i w =
     (List.find (\<lambda>ci. cartItem_id ci = i) (tbl_cartItems w),
      logcall (Db ''query.cartItem'' []) w)"

text \<open>\<^verbatim>\<open>cartItems({ where: { user: { id: userId }, item: { id } } })\<close>\<close>

definition db_query_cartItems :: "ident \<Rightarrow> ident \<Rightarrow> world \<Rightarrow> CartItem list \<times> world" where
  "db_query_cartItems userId itemId w =
     (filter (\<lambda>ci. cartItem_user ci = userId \<and> cartItem_item ci = itemId) (tbl_cartItems w),
      logcall (Db ''query.cartItems'' []) w)"

definition db_query_order :: "ident \<Rightarrow> world \<Rightarrow> Order option \<times> world" where
  "db_query_order i w =
     (List.find (\<lambda>ord. order_id ord = i) (tbl_orders w), logcall (Db ''query.order'' []) w)"

text \<open>
  The nested selection \<^verbatim>\<open>cart { id quantity item { ... } }\<close> of a user: each of the
  user's cart items with the item it refers to, \<open>None\<close> when that item is gone.
\<close>

type_synonym cart_entry = "CartItem \<times> Item option"

definition user_cart :: "User \<Rightarrow> world \<Rightarrow> cart_entry list" where
  "user_cart u w =
     map (\<lambda>ci. (ci, List.find (\<lambda>it. item_id it = cartItem_item ci) (tbl_items w)))
       (filter (\<lambda>ci. cartItem_user ci = user_id u) (tbl_cartItems w))"

subsection \<open>Writes\<close>

definition apply_item_data :: "obj \<Rightarrow> Item \<Rightarrow> Item" where
  "apply_item_data data it =
     it\<lparr>item_id := (case map_of data ''id'' of Some (Id i) \<Rightarrow> i | _ \<Rightarrow> item_id it),
        item_title := (case map_of data ''title'' of Some (Str s) \<Rightarrow> s | _ \<Rightarrow> item_title it),
        item_description :=
          (case map_of data ''description'' of Some (Str s) \<Rightarrow> s | _ \<Rightarrow> item_description it),
        item_image := (case map_of data ''image'' of Some (Str s) \<Rightarrow> s | _ \<Rightarrow> item_image it),
        item_largeImage :=
          (case map_of data ''largeImage'' of Some (Str s) \<Rightarrow> s | _ \<Rightarrow> item_largeImage it),
        item_price := (case map_of data ''price'' of Some (Num n) \<Rightarrow> n | _ \<Rightarrow> item_price it)\<rparr>"

definition apply_user_data :: "obj \<Rightarrow> User \<Rightarrow> User" where
  "apply_user_data data u =
     u\<lparr>user_password :=
         (case map_of data ''password'' of Some (Str s) \<Rightarrow> s | _ \<Rightarrow> user_password u),
       user_resetToken :=
         (case map_of data ''resetToken'' of
            Some (Str s) \<Rightarrow> Some s | Some Null \<Rightarrow> None | _ \<Rightarrow> user_resetToken u),
       user_resetTokenExpiry :=
         (case map_of data ''resetTokenExpiry'' of
            Some (Num n) \<Rightarrow> Some n | Some Null \<Rightarrow> None | _ \<Rightarrow> user_resetTokenExpiry u),
       user_permissions :=
         (case map_of data ''permissions'' of
            Some (SetList ps) \<Rightarrow> ps | _ \<Rightarrow> user_permissions u)\<rparr>"

definition apply_cartItem_data :: "obj \<Rightarrow> CartItem \<Rightarrow> CartItem" where
  "apply_cartItem_data data ci =
     ci\<lparr>cartItem_quantity :=
          (case map_of data ''quantity'' of Some (Num n) \<Rightarrow> n | _ \<Rightarrow> cartItem_quantity ci)\<rparr>"

definition db_mutation_createItem :: "obj \<Rightarrow> world \<Rightarrow> (error + Item) \<times> world" where
  "db_mutation_createItem data w =
     (let w1 = logcall (Db ''mutation.createItem'' data) w in
      case (map_of data ''title'', map_of data ''description'', map_of data ''price'',
            map_of data ''user'') of
        (Some (Str t), Some (Str d), Some (Num p), Some (Connect u)) \<Rightarrow>
          (let (i, w2) = fresh w1;
               item = \<lparr>item_id = i, item_title = t, item_description = d,
                       item_image = (case map_of data ''image'' of Some (Str s) \<Rightarrow> s | _ \<Rightarrow> []),
                       item_largeImage =
                         (case map_of data ''largeImage'' of Some (Str s) \<Rightarrow> s | _ \<Rightarrow> []),
                       item_price = p, item_user = u\<rparr>
           in (Inr item, w2\<lparr>tbl_items := tbl_items w2 @ [item]\<rparr>))
      | _ \<Rightarrow> (Inl PrismaError, w1))"

definition db_mutation_updateItem :: "obj \<Rightarrow> val option \<Rightarrow> world \<Rightarrow> (error + Item) \<times> world" where
  "db_mutation_updateItem data where_id w =
     (let w1 = logcall (Db ''mutation.updateItem'' data) w in
      case where_id of
        Some (Id i) \<Rightarrow>
          (case List.find (\<lambda>it. item_id it = i) (tbl_items w1) of
             None \<Rightarrow> (Inl PrismaError, w1)
           | Some it \<Rightarrow>
               (Inr (apply_item_data data it),
                w1\<lparr>tbl_items :=
                     map (\<lambda>x. if item_id x = i then apply_item_data data x else x) (tbl_items w1)\<rparr>))
      | _ \<Rightarrow> (Inl PrismaError, w1))"

definition db_mutation_deleteItem :: "ident \<Rightarrow> world \<Rightarrow> (error + Item) \<times> world" where
  "db_mutation_deleteItem i w =
     (let w1 = logcall (Db ''mutation.deleteItem'' []) w in
      case List.find (\<lambda>it. item_id it = i) (tbl_items w1) of
        None \<Rightarrow> (Inl PrismaError, w1)
      | Some it \<Rightarrow> (Inr it, w1\<lparr>tbl_items := filter (\<lambda>x. item_id x \<noteq> i) (tbl_items w1)\<rparr>))"

definition db_mutation_updateUser :: "user_where \<Rightarrow> obj \<Rightarrow> world \<Rightarrow> (error + User) \<times> world" where
  "db_mutation_updateUser wh data w =
     (let w1 = logcall (Db ''mutation.updateUser'' data) w in
      case List.find (user_matches wh) (tbl_users w1) of
        None \<Rightarrow> (Inl PrismaError, w1)
      | Some u \<Rightarrow>
          (Inr (apply_user_data data u),
           w1\<lparr>tbl_users :=
                map (\<lambda>x. if user_matches wh x then apply_user_data data x else x) (tbl_users w1)\<rparr>))"

definition db_mutation_updateCartItem :: "ident \<Rightarrow> obj \<Rightarrow> world \<Rightarrow> (error + CartItem) \<times> world" where
  "db_mutation_updateCartItem i data w =
     (let w1 = logcall (Db ''mutation.updateCartItem'' data) w in
      case List.find (\<lambda>ci. cartItem_id ci = i) (tbl_cartItems w1) of
        None \<Rightarrow> (Inl PrismaError, w1)
      | Some ci \<Rightarrow>
          (Inr (apply_cartItem_data data ci),
           w1\<lparr>tbl_cartItems :=
                map (\<lambda>x. if cartItem_id x = i then apply_cartItem_data data x else x)
                  (tbl_cartItems w1)\<rparr>))"

text \<open>
  Modelled from the spec: the quantity of a cart item created without one. The datamodel
  that sets it is not among the source files; the specification has quantities of at
  least 1 and cart items "created/incremented on add-to-cart", so a new row starts at 1.
\<close>

definition db_mutation_createCartItem :: "obj \<Rightarrow> world \<Rightarrow> (error + CartItem) \<times> world" where
  "db_mutation_createCartItem data w =
     (let w1 = logcall (Db ''mutation.createCartItem'' data) w in
      case (map_of data ''user'', map_of data ''item'') of
        (Some (Connect u), Some (Connect it)) \<Rightarrow>
          (let (i, w2) = fresh w1;
               cartItem = \<lparr>cartItem_id = i,
                           cartItem_quantity =
                             (case map_of data ''quantity'' of Some (Num n) \<Rightarrow> n | _ \<Rightarrow> 1),
                           cartItem_user = u, cartItem_item = it\<rparr>
           in (Inr cartItem, w2\<lparr>tbl_cartItems := tbl_cartItems w2 @ [cartItem]\<rparr>))
      | _ \<Rightarrow> (Inl PrismaError, w1))"

definition db_mutation_deleteCartItem :: "ident \<Rightarrow> world \<Rightarrow> (error + CartItem) \<times> world" where
  "db_mutation_deleteCartItem i w =
     (let w1 = logcall (Db ''mutation.deleteCartItem'' []) w in
      case List.find (\<lambda>ci. cartItem_id ci = i) (tbl_cartItems w1) of
        None \<Rightarrow> (Inl PrismaError, w1)
      | Some ci \<Rightarrow>
          (Inr ci, w1\<lparr>tbl_cartItems := filter (\<lambda>x. cartItem_id x \<noteq> i) (tbl_cartItems w1)\<rparr>))"

definition db_mutation_createOrder :: "obj \<Rightarrow> world \<Rightarrow> (error + Order) \<times> world" where
  "db_mutation_createOrder data w =
     (let w1 = logcall (Db ''mutation.createOrder'' data) w in
      if ''mutation.createOrder'' \<in> set (rejects w1) then (Inl PrismaError, w1)
      else
        case (map_of data ''total'', map_of data ''charge'', map_of data ''items'',
              map_of data ''user'') of
          (Some (Num t), Some (Str c), Some (Create orderItems), Some (Connect u)) \<Rightarrow>
            (let (i, w2) = fresh w1;
                 order = \<lparr>order_id = i, order_total = t, order_charge = c,
                          order_items = orderItems, order_user = u\<rparr>
             in (Inr order, w2\<lparr>tbl_orders := tbl_orders w2 @ [order]\<rparr>))
        | _ \<Rightarrow> (Inl PrismaError, w1))"

text \<open>\<^verbatim>\<open>deleteManyCartItems({ where: { id_in } })\<close>\<close>

definition db_mutation_deleteManyCartItems ::
  "ident list \<Rightarrow> world \<Rightarrow> (error + unit) \<times> world" where
  "db_mutation_deleteManyCartItems id_in w =
     (let w1 = logcall (Db ''mutation.deleteManyCartItems'' []) w in
      if ''mutation.deleteManyCartItems'' \<in> set (rejects w1) then (Inl PrismaError, w1)
      else
        (Inr (),
         w1\<lparr>tbl_cartItems :=
              filter (\<lambda>ci. cartItem_id ci \<notin> set id_in) (tbl_cartItems w1)\<rparr>))"

section \<open>The resolvers of Mutation.js\<close>

text \<open>
  \<^verbatim>\<open>{ user: { connect: { id } }, ...args }\<close>: the keys of \<open>args\<close> are written, in
  their order, over the object on the left.
\<close>

definition spread :: "obj \<Rightarrow> obj \<Rightarrow> obj" where
  "spread args base = fold (\<lambda>kv. AList.update (fst kv) (snd kv)) args base"

definition createItem :: "obj \<Rightarrow> request \<Rightarrow> world \<Rightarrow> (error + Item) \<times> world" where
  "createItem args req w =
     (case req_userId req of
        None \<Rightarrow> (Inl (Error ''You must be logged in to do that!''), w)
      | Some userId \<Rightarrow> db_mutation_createItem (spread args [(''user'', Connect userId)]) w)"

text \<open>
  \<^verbatim>\<open>const updates = { ...args }; delete updates.id\<close>: the copy has the keys and values
  of \<open>args\<close>.
\<close>

definition updateItem :: "obj \<Rightarrow> request \<Rightarrow> world \<Rightarrow> (error + Item) \<times> world" where
  "updateItem args req w =
     (let updates = args;
          updates = AList.delete ''id'' updates
      in db_mutation_updateItem updates (map_of args ''id'') w)"

definition deleteItem :: "ident \<Rightarrow> request \<Rightarrow> world \<Rightarrow> (error + Item) \<times> world" where
  "deleteItem i req w =
     (case db_query_item i w of
        (None, w1) \<Rightarrow> (Inl TypeError, w1)
      | (Some item, w1) \<Rightarrow>
          (let ownsItem = (Some (item_user item) = req_userId req) in
           case req_user req of
             None \<Rightarrow> (Inl TypeError, w1)
           | Some user \<Rightarrow>
               (let hasPermissions =
                      list_ex (\<lambda>permission. permission \<in> set [''ADMIN'', ''ITEMDELETE''])
                        (user_permissions user)
                in if \<not> ownsItem \<and> hasPermissions
                   then (Inl (Error ''You don't have permission to do that!''), w1)
                   else db_mutation_deleteItem i w1)))"

definition signout :: "request \<Rightarrow> world \<Rightarrow> (error + string) \<times> world" where
  "signout req w = (Inr ''Goodbye!'', logcall ClearCookie w)"

text \<open>
  \<open>resetToken\<close> is the hexadecimal text of the 20 random bytes and \<open>now\<close> the value of
  \<^verbatim>\<open>Date.now()\<close>, in milliseconds.
\<close>

definition requestReset ::
  "string \<Rightarrow> int \<Rightarrow> string \<Rightarrow> request \<Rightarrow> world \<Rightarrow> (error + string) \<times> world" where
  "requestReset resetToken now email req w =
     (case db_query_user (WhereEmail email) w of
        (None, w1) \<Rightarrow> (Inl (Error (''No such user found for email '' @ email)), w1)
      | (Some user, w1) \<Rightarrow>
          (let resetTokenExpiry = now + 3600000 in
           case db_mutation_updateUser (WhereEmail email)
                  [(''resetToken'', Str resetToken), (''resetTokenExpiry'', Num resetTokenExpiry)] w1 of
             (Inl e, w2) \<Rightarrow> (Inl e, w2)
           | (Inr res, w2) \<Rightarrow> (Inr ''Thanks!'', logcall (Mail (user_email user)) w2)))"

record reset_args =
  password :: string
  confirmPassword :: string
  resetToken :: string

text \<open>\<open>hash\<close> stands for \<^verbatim>\<open>bcrypt.hash(_, 10)\<close>.\<close>

definition resetPassword ::
  "(string \<Rightarrow> string) \<Rightarrow> int \<Rightarrow> reset_args \<Rightarrow> request \<Rightarrow> world \<Rightarrow> (error + User) \<times> world" where
  "resetPassword hash now args req w =
     (if password args \<noteq> confirmPassword args
      then (Inl (Error ''Your passwords do not match''), w)
      else
        (case db_query_users (resetToken args) (now - 3600000) w of
           ([], w1) \<Rightarrow> (Inl (Error ''This token is either invalid or expired!''), w1)
         | (user # _, w1) \<Rightarrow>
             (let hashed = hash (password args) in
              case db_mutation_updateUser (WhereEmail (user_email user))
                     [(''password'', Str hashed), (''resetToken'', Null),
                      (''resetTokenExpiry'', Null)] w1 of
                (Inl e, w2) \<Rightarrow> (Inl e, w2)
              | (Inr updatedUser, w2) \<Rightarrow>
                  (Inr updatedUser, logcall (SetCookie (user_id updatedUser)) w2))))"

text \<open>
  Modelled from the spec: \<^verbatim>\<open>hasPermission\<close> of \<^verbatim>\<open>src/utils\<close>, which is not among the
  source files: "fails with Forbidden unless the identity's permission set intersects
  requiredRoles".
\<close>

definition hasPermission :: "User option \<Rightarrow> string list \<Rightarrow> error + unit" where
  "hasPermission user permissionsNeeded =
     (case user of
        None \<Rightarrow> Inl TypeError
      | Some u \<Rightarrow>
          if list_ex (\<lambda>p. p \<in> set permissionsNeeded) (user_permissions u)
          then Inr () else Inl (Error ''Forbidden''))"

definition updatePermissions ::
  "string list \<Rightarrow> ident \<Rightarrow> request \<Rightarrow> world \<Rightarrow> (error + User) \<times> world" where
  "updatePermissions permissions userId req w =
     (case req_userId req of
        None \<Rightarrow> (Inl (Error ''You must be logged in to do that!''), w)
      | Some uid \<Rightarrow>
          (case db_query_user (WhereId uid) w of
             (currentUser, w1) \<Rightarrow>
               (case hasPermission currentUser [''ADMIN'', ''PERMISSIONUPDATE''] of
                  Inl e \<Rightarrow> (Inl e, w1)
                | Inr _ \<Rightarrow>
                    db_mutation_updateUser (WhereId userId)
                      [(''permissions'', SetList permissions)] w1)))"

definition addToCart :: "ident \<Rightarrow> request \<Rightarrow> world \<Rightarrow> (error + CartItem) \<times> world" where
  "addToCart i req w =
     (case req_userId req of
        None \<Rightarrow> (Inl (Error ''You must be logged in to do that!''), w)
      | Some userId \<Rightarrow>
          (case db_query_cartItems userId i w of
             (existingCartItem # _, w1) \<Rightarrow>
               db_mutation_updateCartItem (cartItem_id existingCartItem)
                 [(''quantity'', Num (cartItem_quantity existingCartItem + 1))] w1
           | ([], w1) \<Rightarrow>
               db_mutation_createCartItem [(''user'', Connect userId), (''item'', Connect i)] w1))"

definition removeFromCart :: "ident \<Rightarrow> request \<Rightarrow> world \<Rightarrow> (error + CartItem) \<times> world" where
  "removeFromCart i req w =
     (case db_query_cartItem i w of
        (None, w1) \<Rightarrow> (Inl (Error ''No CartItem Found!''), w1)
      | (Some cartItem, w1) \<Rightarrow>
          if Some (cartItem_user cartItem) \<noteq> req_userId req
          then (Inl (Error ''Cheating??? :O''), w1)
          else db_mutation_deleteCartItem i w1)"

subsection \<open>createOrder\<close>

text \<open>
  The arithmetic of the program is that of doubles. The exact product or sum of two
  integer-valued doubles is an integer, and the program keeps the double nearest to it,
  ties going to the even significand: an integer of at most 53 bits is kept as it is, a
  longer one keeps its leading 53 bits, rounded. (Magnitudes of \<open>2^1024\<close> and more, which
  the program turns into infinity, are outside the model.)
\<close>

fun bit_length :: "nat \<Rightarrow> nat" where
  "bit_length n = (if n = 0 then 0 else Suc (bit_length (n div 2)))"

declare bit_length.simps [simp del]

definition js_number :: "int \<Rightarrow> int" where
  "js_number n =
     (let m = nat \<bar>n\<bar>;
          e = bit_length m - 53;
          q = m div 2 ^ e;
          r = m mod 2 ^ e;
          q' = (if 2 * r > 2 ^ e \<or> (2 * r = 2 ^ e \<and> odd q) then q + 1 else q)
      in sgn n * int (q' * 2 ^ e))"

text \<open>
  \<^verbatim>\<open>user.cart.reduce((tally, cartItem) => tally + cartItem.item.price * cartItem.quantity, 0)\<close>:
  reading \<^verbatim>\<open>price\<close> of a \<^verbatim>\<open>null\<close> item throws.
\<close>

fun reduce_cart :: "cart_entry list \<Rightarrow> int \<Rightarrow> error + int" where
  "reduce_cart [] tally = Inr tally"
| "reduce_cart ((cartItem, None) # rest) tally = Inl TypeError"
| "reduce_cart ((cartItem, Some it) # rest) tally =
     reduce_cart rest
       (js_number (tally + js_number (item_price it * cartItem_quantity cartItem)))"

text \<open>The fields the query selects of a cart item's item, in the selection's order.\<close>

definition item_fields :: "Item \<Rightarrow> obj" where
  "item_fields it =
     [(''title'', Str (item_title it)), (''price'', Num (item_price it)),
      (''id'', Id (item_id it)), (''description'', Str (item_description it)),
      (''image'', Str (item_image it)), (''largeImage'', Str (item_largeImage it))]"

text \<open>
  \<^verbatim>\<open>{ ...cartItem.item, quantity: cartItem.quantity, user: { connect: { id: userId } } }\<close>
  followed by \<^verbatim>\<open>delete orderItem.id\<close>. Spreading \<^verbatim>\<open>null\<close> adds no key.
\<close>

definition orderItem_of :: "ident \<Rightarrow> cart_entry \<Rightarrow> obj" where
  "orderItem_of userId cartItem =
     (let orderItem =
            AList.update ''user'' (Connect userId)
              (AList.update ''quantity'' (Num (cartItem_quantity (fst cartItem)))
                (case snd cartItem of None \<Rightarrow> [] | Some it \<Rightarrow> item_fields it))
      in AList.delete ''id'' orderItem)"

text \<open>
  \<open>stripe\<close> stands for \<^verbatim>\<open>stripe.charges.create\<close>: it answers a request with a charge
  or rejects it with a message.
\<close>

definition createOrder ::
  "(charge_request \<Rightarrow> string + charge) \<Rightarrow> string \<Rightarrow> request \<Rightarrow> world \<Rightarrow> (error + Order) \<times> world" where
  "createOrder stripe token req w =
     (case req_userId req of
        None \<Rightarrow> (Inl (Error ''You must be logged in to complete this order!''), w)
      | Some userId \<Rightarrow>
          (case db_query_user (WhereId userId) w of
             (None, w1) \<Rightarrow> (Inl TypeError, w1)
           | (Some user, w1) \<Rightarrow>
               (let cart = user_cart user w1 in
                case reduce_cart cart 0 of
                  Inl e \<Rightarrow> (Inl e, w1)
                | Inr amount \<Rightarrow>
                    (let chargeReq = \<lparr>cr_amount = amount, cr_currency = ''USD'', cr_source = token\<rparr>;
                         w2 = logcall (Charge chargeReq) w1
                     in case stripe chargeReq of
                          Inl msg \<Rightarrow> (Inl (StripeError msg), w2)
                        | Inr charge \<Rightarrow>
                            (let orderItems = map (orderItem_of userId) cart in
                             case db_mutation_createOrder
                                    [(''total'', Num (charge_amount charge)),
                                     (''charge'', Str (charge_id charge)),
                                     (''items'', Create orderItems),
                                     (''user'', Connect userId)] w2 of
                               (Inl e, w3) \<Rightarrow> (Inl e, w3)
                             | (Inr order, w3) \<Rightarrow>
                                 (let cartItemIds = map (\<lambda>cartItem. cartItem_id (fst cartItem)) cart
                                  in case db_mutation_deleteManyCartItems cartItemIds w3 of
                                       (Inl e, w4) \<Rightarrow> (Inl e, w4)
                                     | (Inr _, w4) \<Rightarrow> (Inr order, w4)))))))"

section \<open>The order resolver of Query.js\<close>

definition order_query :: "ident \<Rightarrow> request \<Rightarrow> world \<Rightarrow> (error + Order) \<times> world" where
  "order_query i req w =
     (case req_userId req of
        None \<Rightarrow> (Inl (Error ''You must be logged in''), w)
      | Some userId \<Rightarrow>
          (case db_query_order i w of
             (None, w1) \<Rightarrow> (Inl TypeError, w1)
           | (Some order, w1) \<Rightarrow>
               (let ownsOrder = (order_user order = userId) in
                case req_user req of
                  None \<Rightarrow> (Inl TypeError, w1)
                | Some user \<Rightarrow>
                    (let hasPermissionToSeeOrder = (''ADMIN'' \<in> set (user_permissions user))
                     in if \<not> ownsOrder \<or> \<not> hasPermissionToSeeOrder
                        then (Inl (Error ''You do not have permissions to see this order''), w1)
                        else (Inr order, w1)))))"

section \<open>Observations and a sample store\<close>

text \<open>The calls a resolver added to the trace, and the charge requests among them.\<close>

definition calls_since :: "world \<Rightarrow> world \<Rightarrow> call list" where
  "calls_since w w' = drop (length (trace w)) (trace w')"

fun charges_of :: "call list \<Rightarrow> charge_request list" where
  "charges_of [] = []"
| "charges_of (Charge r # cs) = r # charges_of cs"
| "charges_of (c # cs) = charges_of cs"

text \<open>
  The sample store: Alice sells two items and has asked for a password reset; Bob has both
  items in his cart (500 twice, 1200 once, as in the scenario of the specification) and an
  earlier order; Carol is an administrator.
\<close>

definition alice :: User where
  "alice = \<lparr>user_id = 1, user_name = ''Alice'', user_email = ''alice@shop.test'',
             user_password = ''hash-a'', user_permissions = [''USER''],
             user_resetToken = Some ''c0ffee'', user_resetTokenExpiry = Some 5000000\<rparr>"

definition bob :: User where
  "bob = \<lparr>user_id = 2, user_name = ''Bob'', user_email = ''bob@shop.test'',
           user_password = ''hash-b'', user_permissions = [''USER''],
           user_resetToken = None, user_resetTokenExpiry = None\<rparr>"

definition carol :: User where
  "carol = \<lparr>user_id = 3, user_name = ''Carol'', user_email = ''carol@shop.test'',
             user_password = ''hash-c'', user_permissions = [''USER'', ''ADMIN''],
             user_resetToken = None, user_resetTokenExpiry = None\<rparr>"

definition shoes :: Item where
  "shoes = \<lparr>item_id = 10, item_title = ''Shoes'', item_description = ''Red'',
             item_image = ''s.jpg'', item_largeImage = ''S.jpg'', item_price = 500,
             item_user = 1\<rparr>"

definition coat :: Item where
  "coat = \<lparr>item_id = 11, item_title = ''Coat'', item_description = ''Warm'',
            item_image = ''c.jpg'', item_largeImage = ''C.jpg'', item_price = 1200,
            item_user = 1\<rparr>"

definition shop :: world where
  "shop =
     \<lparr>tbl_users = [alice, bob, carol],
      tbl_items = [shoes, coat],
      tbl_cartItems =
        [\<lparr>cartItem_id = 20, cartItem_quantity = 2, cartItem_user = 2, cartItem_item = 10\<rparr>,
         \<lparr>cartItem_id = 21, cartItem_quantity = 1, cartItem_user = 2, cartItem_item = 11\<rparr>,
         \<lparr>cartItem_id = 22, cartItem_quantity = 5, cartItem_user = 3, cartItem_item = 10\<rparr>],
      tbl_orders =
        [\<lparr>order_id = 30, order_total = 500, order_charge = ''ch_0'',
          order_items = [[(''title'', Str ''Shoes''), (''price'', Num 500), (''quantity'', Num 1)]],
          order_user = 2\<rparr>],
      nextId = 100,
      trace = [],
      rejects = []\<rparr>"

definition anonymous :: request where
  "anonymous = \<lparr>req_userId = None, req_user = None\<rparr>"

definition signed_in :: "User \<Rightarrow> request" where
  "signed_in u = \<lparr>req_userId = Some (user_id u), req_user = Some u\<rparr>"

definition accepting :: "charge_request \<Rightarrow> string + charge" where
  "accepting r = Inr \<lparr>charge_id = ''ch_1'', charge_amount = cr_amount r\<rparr>"

definition declining :: "charge_request \<Rightarrow> string + charge" where
  "declining r = Inl ''Your card was declined.''"

definition bcrypt_stub :: "string \<Rightarrow> string" where
  "bcrypt_stub p = ''bcrypt:'' @ p"

text \<open>Bob's checkout of the sample store with an accepting payment collaborator.\<close>

definition bobs_order :: Order where
  "bobs_order =
     \<lparr>order_id = 100, order_total = 2200, order_charge = ''ch_1'',
      order_items =
        [[(''title'', Str ''Shoes''), (''price'', Num 500), (''description'', Str ''Red''),
          (''image'', Str ''s.jpg''), (''largeImage'', Str ''S.jpg''), (''quantity'', Num 2),
          (''user'', Connect 2)],
         [(''title'', Str ''Coat''), (''price'', Num 1200), (''description'', Str ''Warm''),
          (''image'', Str ''c.jpg''), (''largeImage'', Str ''C.jpg''), (''quantity'', Num 1),
          (''user'', Connect 2)]],
      order_user = 2\<rparr>"

definition shop_after_checkout :: world where
  "shop_after_checkout =
     shop\<lparr>tbl_orders := tbl_orders shop @ [bobs_order],
          tbl_cartItems :=
            [\<lparr>cartItem_id = 22, cartItem_quantity = 5, cartItem_user = 3, cartItem_item = 10\<rparr>],
          nextId := 101,
          trace :=
            [Db ''query.user'' [],
             Charge \<lparr>cr_amount = 2200, cr_currency = ''USD'', cr_source = ''tok_visa''\<rparr>,
             Db ''mutation.createOrder''
               [(''total'', Num 2200), (''charge'', Str ''ch_1''),
                (''items'', Create (order_items bobs_order)), (''user'', Connect 2)],
             Db ''mutation.deleteManyCartItems'' []]\<rparr>"

text \<open>
  A second store for Bob's checkout: one cart row of 4194305 pieces of an item priced
  2147483647, both within the 32-bit integers of the schema. Their product,
  9007201398030335, is odd and above \<open>2^53\<close>.
\<close>

definition jet :: Item where
  "jet = \<lparr>item_id = 12, item_title = ''Jet'', item_description = ''Fast'',
           item_image = ''j.jpg'', item_largeImage = ''J.jpg'', item_price = 2147483647,
           item_user = 1\<rparr>"

definition bulk_shop :: world where
  "bulk_shop =
     shop\<lparr>tbl_items := [jet],
          tbl_cartItems :=
            [\<lparr>cartItem_id = 23, cartItem_quantity = 4194305, cartItem_user = 2,
              cartItem_item = 12\<rparr>]\<rparr>"

section \<open>Properties of checkout\<close>

lemmas sample_defs =
  shop_def shoes_def coat_def alice_def bob_def carol_def signed_in_def anonymous_def

text \<open>Integers of at most 53 bits are doubles: rounding keeps them.\<close>

lemma bit_length_le: "n < 2 ^ k \<Longrightarrow> bit_length n \<le> k"
proof (induction k arbitrary: n)
  case 0
  then show ?case by (simp add: bit_length.simps)
next
  case (Suc k)
  from Suc.prems have "n div 2 < 2 ^ k" by simp
  from Suc.IH [OF this] show ?case
    by (subst bit_length.simps) simp
qed

lemma js_number_exact:
  assumes "\<bar>n\<bar> < 2 ^ 53"
  shows "js_number n = n"
proof -
  from assms have "nat \<bar>n\<bar> < 2 ^ 53"
    by (simp add: nat_less_iff)
  from bit_length_le [OF this] have "bit_length (nat \<bar>n\<bar>) - 53 = 0"
    by simp
  then show ?thesis
    by (simp add: js_number_def Let_def mult_sgn_abs)
qed

text \<open>An odd integer of 54 bits is not: the tie goes to the even significand.\<close>

lemma bit_length_jet: "bit_length 9007201398030335 = 54"
  by (simp add: bit_length.simps)

lemma js_number_jet: "js_number 9007201398030335 = 9007201398030336"
  by (simp add: js_number_def Let_def bit_length_jet)

lemma bit_length_jet_rounded: "bit_length 9007201398030336 = 54"
  by (simp add: bit_length.simps)

lemma js_number_jet_rounded: "js_number 9007201398030336 = 9007201398030336"
  by (simp add: js_number_def Let_def bit_length_jet_rounded)

text \<open>The reduction of the cart needs every item, and is exact inside the 53 bits.\<close>

lemma reduce_cart_live:
  "\<forall>ce \<in> set cart. snd ce \<noteq> None \<Longrightarrow> \<exists>a. reduce_cart cart tally = Inr a"
  by (induction cart tally rule: reduce_cart.induct) auto

lemma reduce_cart_exact:
  assumes "\<forall>ce \<in> set cart. snd ce \<noteq> None"
    and "\<forall>ce \<in> set cart. \<bar>item_price (the (snd ce)) * cartItem_quantity (fst ce)\<bar> < 2 ^ 53"
    and "\<forall>k \<le> length cart.
           \<bar>tally + (\<Sum>ce\<leftarrow>take k cart. item_price (the (snd ce)) * cartItem_quantity (fst ce))\<bar>
             < 2 ^ 53"
  shows "reduce_cart cart tally =
     Inr (tally + (\<Sum>ce\<leftarrow>cart. item_price (the (snd ce)) * cartItem_quantity (fst ce)))"
  using assms
proof (induction cart arbitrary: tally)
  case Nil
  then show ?case by simp
next
  case (Cons ce rest)
  from Cons.prems(1) obtain ci it where ce: "ce = (ci, Some it)"
    by (cases ce) auto
  let ?p = "item_price it * cartItem_quantity ci"
  from Cons.prems(2) ce have p: "\<bar>?p\<bar> < 2 ^ 53" by simp
  from Cons.prems(3) [rule_format, of 1] ce have s: "\<bar>tally + ?p\<bar> < 2 ^ 53" by simp
  have sums: "\<forall>k \<le> length rest.
      \<bar>(tally + ?p) + (\<Sum>ce\<leftarrow>take k rest. item_price (the (snd ce)) * cartItem_quantity (fst ce))\<bar>
        < 2 ^ 53"
  proof (intro allI impI)
    fix k assume "k \<le> length rest"
    with Cons.prems(3) [rule_format, of "Suc k"] ce show
      "\<bar>(tally + ?p) + (\<Sum>ce\<leftarrow>take k rest. item_price (the (snd ce)) * cartItem_quantity (fst ce))\<bar>
        < 2 ^ 53"
      by (simp add: add.assoc)
  qed
  from Cons.prems(1,2) have "\<forall>ce \<in> set rest. snd ce \<noteq> None"
    "\<forall>ce \<in> set rest. \<bar>item_price (the (snd ce)) * cartItem_quantity (fst ce)\<bar> < 2 ^ 53"
    by simp_all
  from Cons.IH [OF this sums] ce show ?case
    by (simp add: js_number_exact [OF p] js_number_exact [OF s] add.assoc)
qed

lemma user_cart_trace [simp]: "user_cart u (w\<lparr>trace := t\<rparr>) = user_cart u w"
  by (simp add: user_cart_def)

lemma user_cart_logcall [simp]: "user_cart u (logcall c w) = user_cart u w"
  by (simp add: logcall_def)

text \<open>
  What \<open>createOrder\<close> does once it has found the signed-in user and reduced the cart.
\<close>

lemma createOrder_charged:
  assumes "req_userId req = Some userId"
    and "List.find (user_matches (WhereId userId)) (tbl_users w) = Some user"
    and "reduce_cart (user_cart user w) 0 = Inr amount"
  shows "createOrder stripe token req w =
    (let chargeReq = \<lparr>cr_amount = amount, cr_currency = ''USD'', cr_source = token\<rparr> in
     case stripe chargeReq of
       Inl msg \<Rightarrow>
         (Inl (StripeError msg), w\<lparr>trace := trace w @ [Db ''query.user'' [], Charge chargeReq]\<rparr>)
     | Inr ch \<Rightarrow>
        (let orderItems = map (orderItem_of userId) (user_cart user w);
             order = \<lparr>order_id = nextId w, order_total = charge_amount ch,
                      order_charge = charge_id ch, order_items = orderItems,
                      order_user = userId\<rparr>;
             written = Db ''mutation.createOrder''
                    [(''total'', Num (charge_amount ch)), (''charge'', Str (charge_id ch)),
                     (''items'', Create orderItems), (''user'', Connect userId)]
         in if ''mutation.createOrder'' \<in> set (rejects w)
            then (Inl PrismaError,
                  w\<lparr>trace := trace w @ [Db ''query.user'' [], Charge chargeReq, written]\<rparr>)
            else if ''mutation.deleteManyCartItems'' \<in> set (rejects w)
            then (Inl PrismaError,
                  w\<lparr>tbl_orders := tbl_orders w @ [order],
                    nextId := Suc (nextId w),
                    trace := trace w @ [Db ''query.user'' [], Charge chargeReq, written,
                       Db ''mutation.deleteManyCartItems'' []]\<rparr>)
            else (Inr order,
                  w\<lparr>tbl_orders := tbl_orders w @ [order],
                    tbl_cartItems :=
                      filter (\<lambda>ci. cartItem_id ci \<notin> cartItem_id ` fst ` set (user_cart user w))
                        (tbl_cartItems w),
                    nextId := Suc (nextId w),
                    trace := trace w @ [Db ''query.user'' [], Charge chargeReq, written,
                       Db ''mutation.deleteManyCartItems'' []]\<rparr>)))"
  using assms
  by (simp add: createOrder_def db_query_user_def Let_def logcall_def fresh_def
      db_mutation_createOrder_def db_mutation_deleteManyCartItems_def image_image
      split: sum.splits)

lemma createOrder_uncharged:
  assumes "req_userId req = None
     \<or> (\<exists>userId. req_userId req = Some userId \<and>
           (case List.find (user_matches (WhereId userId)) (tbl_users w) of
              None \<Rightarrow> True
            | Some user \<Rightarrow> \<exists>e. reduce_cart (user_cart user w) 0 = Inl e))"
  shows "\<exists>e w'. createOrder stripe token req w = (Inl e, w') \<and> charges_of (calls_since w w') = []"
  using assms
  by (auto simp add: createOrder_def db_query_user_def Let_def logcall_def calls_since_def
      split: option.splits sum.splits prod.splits)

lemma createOrder_cases:
  assumes "createOrder stripe token req w = (res, w')"
  obtains (uncharged) e where "res = Inl e" "charges_of (calls_since w w') = []"
  | (charged) userId user amount where "req_userId req = Some userId"
      "List.find (user_matches (WhereId userId)) (tbl_users w) = Some user"
      "reduce_cart (user_cart user w) 0 = Inr amount"
proof (cases "\<exists>userId user amount. req_userId req = Some userId
      \<and> List.find (user_matches (WhereId userId)) (tbl_users w) = Some user
      \<and> reduce_cart (user_cart user w) 0 = Inr amount")
  case True
  then show ?thesis using charged by blast
next
  case False
  then have "req_userId req = None
     \<or> (\<exists>userId. req_userId req = Some userId \<and>
           (case List.find (user_matches (WhereId userId)) (tbl_users w) of
              None \<Rightarrow> True
            | Some user \<Rightarrow> \<exists>e. reduce_cart (user_cart user w) 0 = Inl e))"
    by (cases "req_userId req") (auto split: option.splits intro: sum.exhaust)
  from createOrder_uncharged [OF this, of stripe token] assms show ?thesis
    using uncharged by auto
qed

lemma find_SomeD: "List.find P xs = Some x \<Longrightarrow> P x \<and> x \<in> set xs"
  by (auto simp add: find_Some_iff)

lemma orderItem_of_live:
  "orderItem_of userId (ci, Some it) =
     [(''title'', Str (item_title it)), (''price'', Num (item_price it)),
      (''description'', Str (item_description it)), (''image'', Str (item_image it)),
      (''largeImage'', Str (item_largeImage it)),
      (''quantity'', Num (cartItem_quantity ci)), (''user'', Connect userId)]"
  by (simp add: orderItem_of_def item_fields_def)

lemma map_fst_user_cart:
  "map fst (user_cart user w) = filter (\<lambda>ci. cartItem_user ci = user_id user) (tbl_cartItems w)"
  by (simp add: user_cart_def comp_def)

lemma filter_by_unique_id:
  assumes "distinct (map f xs)"
  shows "filter (\<lambda>x. f x \<notin> f ` set (filter P xs)) xs = filter (\<lambda>x. \<not> P x) xs"
proof (rule filter_cong [OF refl])
  fix x assume x: "x \<in> set xs"
  from assms have inj: "inj_on f (set xs)" by (simp add: distinct_map)
  show "(f x \<notin> f ` set (filter P xs)) = (\<not> P x)"
  proof
    assume "f x \<notin> f ` set (filter P xs)"
    with x show "\<not> P x" by auto
  next
    assume np: "\<not> P x"
    show "f x \<notin> f ` set (filter P xs)"
    proof
      assume "f x \<in> f ` set (filter P xs)"
      then obtain y where y: "y \<in> set xs" "P y" "f x = f y" by auto
      with inj x have "x = y" by (simp add: inj_on_eq_iff)
      with y np show False by simp
    qed
  qed
qed

text \<open>The sample checkouts: Bob's card is accepted, or declined.\<close>

lemma user_cart_bob:
  "user_cart bob shop =
     [(\<lparr>cartItem_id = 20, cartItem_quantity = 2, cartItem_user = 2, cartItem_item = 10\<rparr>,
       Some shoes),
      (\<lparr>cartItem_id = 21, cartItem_quantity = 1, cartItem_user = 2, cartItem_item = 11\<rparr>,
       Some coat)]"
  by (simp add: user_cart_def sample_defs)

lemmas checkout_defs =
  createOrder_def db_query_user_def logcall_def orderItem_of_def item_fields_def
  db_mutation_createOrder_def fresh_def db_mutation_deleteManyCartItems_def Let_def

lemma createOrder_shop:
  "createOrder accepting ''tok_visa'' (signed_in bob) shop = (Inr bobs_order, shop_after_checkout)"
  by (simp add: checkout_defs sample_defs accepting_def user_cart_def js_number_exact
      bobs_order_def shop_after_checkout_def)

lemma createOrder_declined_shop:
  "createOrder declining ''tok_visa'' (signed_in bob) shop =
     (Inl (StripeError ''Your card was declined.''),
      shop\<lparr>trace := [Db ''query.user'' [],
                      Charge \<lparr>cr_amount = 2200, cr_currency = ''USD'', cr_source = ''tok_visa''\<rparr>]\<rparr>)"
  by (simp add: checkout_defs sample_defs declining_def user_cart_def js_number_exact)

text \<open>
  Claim C1, as stated, fails where the arithmetic of doubles rounds. Bob's cart in the
  second store holds 4194305 pieces at 2147483647: the sum of price times quantity is
  9007201398030335, and \<open>createOrder\<close> asks for a charge of 9007201398030336 and stores
  that total.
\<close>

theorem createOrder_total_rounded:
  "fst (createOrder accepting ''tok_visa'' (signed_in bob) bulk_shop) =
     Inr \<lparr>order_id = 100, order_total = 9007201398030336, order_charge = ''ch_1'',
          order_items =
            [[(''title'', Str ''Jet''), (''price'', Num 2147483647), (''description'', Str ''Fast''),
              (''image'', Str ''j.jpg''), (''largeImage'', Str ''J.jpg''),
              (''quantity'', Num 4194305), (''user'', Connect 2)]],
          order_user = 2\<rparr>
   \<and> charges_of (calls_since bulk_shop
        (snd (createOrder accepting ''tok_visa'' (signed_in bob) bulk_shop))) =
       [\<lparr>cr_amount = 9007201398030336, cr_currency = ''USD'', cr_source = ''tok_visa''\<rparr>]
   \<and> (\<Sum>ce\<leftarrow>user_cart bob bulk_shop. item_price (the (snd ce)) * cartItem_quantity (fst ce)) =
       9007201398030335"
  by (simp add: checkout_defs sample_defs bulk_shop_def jet_def accepting_def user_cart_def
      js_number_jet js_number_jet_rounded calls_since_def)

text \<open>
  Claim C1, amended. Let the request carry an identity whose user the store finds, let
  every item of the cart read at that moment exist, and let every product of price and
  quantity and every running total of the cart be below \<open>2^53\<close> in magnitude. Then
  \<open>createOrder\<close> asks for exactly one charge, in USD from the given token, whose amount
  is the sum of price times quantity over that cart. When the charge is rejected the call
  fails with that rejection. When it is accepted and the store takes the order, the orders
  table grows by one order whose total is the amount of the charge the payment
  collaborator returned, and the call returns that order unless the store refuses to clear
  the cart; when the store refuses the order, the call fails and no order is added.
\<close>

theorem createOrder_total:
  assumes "req_userId req = Some userId"
    and "List.find (user_matches (WhereId userId)) (tbl_users w) = Some user"
    and "\<forall>ce \<in> set (user_cart user w). snd ce \<noteq> None"
    and "\<forall>ce \<in> set (user_cart user w).
           \<bar>item_price (the (snd ce)) * cartItem_quantity (fst ce)\<bar> < 2 ^ 53"
    and "\<forall>k \<le> length (user_cart user w).
           \<bar>\<Sum>ce\<leftarrow>take k (user_cart user w).
               item_price (the (snd ce)) * cartItem_quantity (fst ce)\<bar> < 2 ^ 53"
  shows "\<exists>res w'.
       createOrder stripe token req w = (res, w')
     \<and> (let chargeReq =
              \<lparr>cr_amount = (\<Sum>ce\<leftarrow>user_cart user w.
                               item_price (the (snd ce)) * cartItem_quantity (fst ce)),
               cr_currency = ''USD'', cr_source = token\<rparr>
        in charges_of (calls_since w w') = [chargeReq]
         \<and> (case stripe chargeReq of
               Inl msg \<Rightarrow> res = Inl (StripeError msg)
             | Inr ch \<Rightarrow>
                 if ''mutation.createOrder'' \<in> set (rejects w)
                 then res = Inl PrismaError \<and> tbl_orders w' = tbl_orders w
                 else \<exists>order. tbl_orders w' = tbl_orders w @ [order]
                        \<and> order_total order = charge_amount ch
                        \<and> (if ''mutation.deleteManyCartItems'' \<in> set (rejects w)
                           then res = Inl PrismaError else res = Inr order)))"
proof -
  from assms(5) have sums: "\<forall>k \<le> length (user_cart user w).
           \<bar>0 + (\<Sum>ce\<leftarrow>take k (user_cart user w).
               item_price (the (snd ce)) * cartItem_quantity (fst ce))\<bar> < 2 ^ 53"
    by simp
  from reduce_cart_exact [OF assms(3,4) sums]
  have amount: "reduce_cart (user_cart user w) 0 =
      Inr (\<Sum>ce\<leftarrow>user_cart user w. item_price (the (snd ce)) * cartItem_quantity (fst ce))"
    by simp
  show ?thesis
    unfolding createOrder_charged [OF assms(1,2) amount]
    by (simp add: Let_def calls_since_def split: sum.splits)
qed

theorem createOrder_total_witness:
  "createOrder accepting ''tok_visa'' (signed_in bob) shop = (Inr bobs_order, shop_after_checkout)
   \<and> charges_of (calls_since shop shop_after_checkout) =
       [\<lparr>cr_amount = 2200, cr_currency = ''USD'', cr_source = ''tok_visa''\<rparr>]
   \<and> order_total bobs_order = 2200"
proof -
  have who: "req_userId (signed_in bob) = Some 2"
    "List.find (user_matches (WhereId 2)) (tbl_users shop) = Some bob"
    by (simp_all add: sample_defs)
  have live: "\<forall>ce \<in> set (user_cart bob shop). snd ce \<noteq> None"
    by (simp add: user_cart_bob)
  have products: "\<forall>ce \<in> set (user_cart bob shop).
      \<bar>item_price (the (snd ce)) * cartItem_quantity (fst ce)\<bar> < 2 ^ 53"
    by (simp add: user_cart_bob shoes_def coat_def)
  have sums: "\<forall>k \<le> length (user_cart bob shop).
      \<bar>\<Sum>ce\<leftarrow>take k (user_cart bob shop).
          item_price (the (snd ce)) * cartItem_quantity (fst ce)\<bar> < 2 ^ 53"
  proof (intro allI impI)
    fix k assume "k \<le> length (user_cart bob shop)"
    then have "k = 0 \<or> k = 1 \<or> k = 2"
      by (auto simp add: user_cart_bob)
    then show "\<bar>\<Sum>ce\<leftarrow>take k (user_cart bob shop).
          item_price (the (snd ce)) * cartItem_quantity (fst ce)\<bar> < 2 ^ 53"
      by (auto simp add: user_cart_bob shoes_def coat_def)
  qed
  have total: "(\<Sum>ce\<leftarrow>user_cart bob shop. item_price (the (snd ce)) * cartItem_quantity (fst ce))
      = 2200"
    by (simp add: user_cart_bob shoes_def coat_def)
  from createOrder_total [OF who live products sums, of accepting "''tok_visa''"]
  have "charges_of (calls_since shop shop_after_checkout) =
       [\<lparr>cr_amount = 2200, cr_currency = ''USD'', cr_source = ''tok_visa''\<rparr>]"
    unfolding total createOrder_shop by (simp add: Let_def)
  then show ?thesis
    by (simp add: createOrder_shop bobs_order_def)
qed

text \<open>
  Claim C2. When the charge that a call of \<open>createOrder\<close> asks for is rejected by the
  payment collaborator, the call fails with that rejection, and the store is as it was: no
  order is added, no cart item is deleted, no other table changes. The only calls made are
  the query of the user and the charge request.
\<close>

theorem createOrder_charge_rejected:
  assumes "createOrder stripe token req w = (res, w')"
    and "r \<in> set (charges_of (calls_since w w'))"
    and "stripe r = Inl msg"
  shows "res = Inl (StripeError msg)
     \<and> tbl_orders w' = tbl_orders w \<and> tbl_cartItems w' = tbl_cartItems w
     \<and> tbl_users w' = tbl_users w \<and> tbl_items w' = tbl_items w \<and> nextId w' = nextId w
     \<and> calls_since w w' = [Db ''query.user'' [], Charge r]"
  using assms(1)
proof (cases rule: createOrder_cases)
  case (uncharged e)
  with assms(2) show ?thesis by simp
next
  case (charged userId user amount)
  let ?r = "\<lparr>cr_amount = amount, cr_currency = ''USD'', cr_source = token\<rparr>"
  from createOrder_charged [OF charged, of stripe token] assms(1)
  have "charges_of (calls_since w w') = [?r]"
    by (auto simp add: Let_def calls_since_def split: sum.splits if_splits)
  with assms(2) have r: "r = ?r" by simp
  from createOrder_charged [OF charged, of stripe token] assms(1) assms(3) r
  show ?thesis
    by (auto simp add: Let_def calls_since_def)
qed

theorem createOrder_charge_rejected_witness:
  "createOrder declining ''tok_visa'' (signed_in bob) shop =
     (Inl (StripeError ''Your card was declined.''),
      shop\<lparr>trace := [Db ''query.user'' [],
                      Charge \<lparr>cr_amount = 2200, cr_currency = ''USD'', cr_source = ''tok_visa''\<rparr>]\<rparr>)
   \<and> tbl_orders (snd (createOrder declining ''tok_visa'' (signed_in bob) shop)) = tbl_orders shop
   \<and> tbl_cartItems (snd (createOrder declining ''tok_visa'' (signed_in bob) shop)) = tbl_cartItems shop"
proof -
  let ?r = "\<lparr>cr_amount = 2200, cr_currency = ''USD'', cr_source = ''tok_visa''\<rparr>"
  let ?w' = "shop\<lparr>trace := [Db ''query.user'' [], Charge ?r]\<rparr>"
  have charged: "?r \<in> set (charges_of (calls_since shop ?w'))"
    by (simp add: calls_since_def shop_def)
  have rejected: "declining ?r = Inl ''Your card was declined.''"
    by (simp add: declining_def)
  from createOrder_charge_rejected [OF createOrder_declined_shop charged rejected]
  have "tbl_orders ?w' = tbl_orders shop \<and> tbl_cartItems ?w' = tbl_cartItems shop"
    by blast
  then show ?thesis
    by (simp only: createOrder_declined_shop snd_conv simp_thms)
qed

text \<open>
  Claim C3, as stated, fails when the store refuses a write after the charge was
  accepted: the resolver awaits the two writes one after the other, with no transaction.
  With Bob's card accepted, a store that refuses the order leaves no order and the whole
  cart; a store that takes the order and refuses to clear the cart leaves the order and
  the whole cart. Both calls fail.
\<close>

theorem createOrder_write_refused:
  "createOrder accepting ''tok_visa'' (signed_in bob) (shop\<lparr>rejects := [''mutation.createOrder'']\<rparr>) =
     (Inl PrismaError,
      shop\<lparr>trace :=
             [Db ''query.user'' [],
              Charge \<lparr>cr_amount = 2200, cr_currency = ''USD'', cr_source = ''tok_visa''\<rparr>,
              Db ''mutation.createOrder''
                [(''total'', Num 2200), (''charge'', Str ''ch_1''),
                 (''items'', Create (order_items bobs_order)), (''user'', Connect 2)]],
           rejects := [''mutation.createOrder'']\<rparr>)
   \<and> createOrder accepting ''tok_visa'' (signed_in bob)
       (shop\<lparr>rejects := [''mutation.deleteManyCartItems'']\<rparr>) =
     (Inl PrismaError,
      shop\<lparr>tbl_orders := tbl_orders shop @ [bobs_order],
           nextId := 101,
           trace :=
             [Db ''query.user'' [],
              Charge \<lparr>cr_amount = 2200, cr_currency = ''USD'', cr_source = ''tok_visa''\<rparr>,
              Db ''mutation.createOrder''
                [(''total'', Num 2200), (''charge'', Str ''ch_1''),
                 (''items'', Create (order_items bobs_order)), (''user'', Connect 2)],
              Db ''mutation.deleteManyCartItems'' []],
           rejects := [''mutation.deleteManyCartItems'']\<rparr>)"
  by (simp add: checkout_defs sample_defs accepting_def user_cart_def js_number_exact
      bobs_order_def)

text \<open>
  Claim C3, amended. Let the request carry an identity whose user the store finds, let
  every item of the cart read at that moment exist, let the payment collaborator accept
  the charge for the amount of that cart, and let the store take both the order and the
  clearing of the cart. Then \<open>createOrder\<close> returns an order and the orders table grows
  by exactly that order. The order holds one snapshot per entry of the cart, in the same
  order, each with the title, description, images and price of the entry's item and the
  quantity of the entry. The cart read is the list of the signed-in user's cart items. The
  cart items left in the store are those whose identifier is not that of an entry of the
  cart; in a store whose cart items have distinct identifiers these are the rows that were
  not in the cart, so the rows deleted are exactly the rows of the cart.
\<close>

theorem createOrder_charge_accepted:
  assumes "req_userId req = Some userId"
    and "List.find (user_matches (WhereId userId)) (tbl_users w) = Some user"
    and "\<forall>ce \<in> set (user_cart user w). snd ce \<noteq> None"
    and "\<forall>amount. reduce_cart (user_cart user w) 0 = Inr amount \<longrightarrow>
           (\<exists>ch. stripe \<lparr>cr_amount = amount, cr_currency = ''USD'', cr_source = token\<rparr> = Inr ch)"
    and "''mutation.createOrder'' \<notin> set (rejects w)"
    and "''mutation.deleteManyCartItems'' \<notin> set (rejects w)"
  shows "\<exists>order w'.
       createOrder stripe token req w = (Inr order, w')
     \<and> tbl_orders w' = tbl_orders w @ [order]
     \<and> list_all2
         (\<lambda>snapshot cartItem. \<exists>item. snd cartItem = Some item
            \<and> map_of snapshot ''title'' = Some (Str (item_title item))
            \<and> map_of snapshot ''description'' = Some (Str (item_description item))
            \<and> map_of snapshot ''image'' = Some (Str (item_image item))
            \<and> map_of snapshot ''largeImage'' = Some (Str (item_largeImage item))
            \<and> map_of snapshot ''price'' = Some (Num (item_price item))
            \<and> map_of snapshot ''quantity'' = Some (Num (cartItem_quantity (fst cartItem))))
         (order_items order) (user_cart user w)
     \<and> map fst (user_cart user w) = filter (\<lambda>ci. cartItem_user ci = userId) (tbl_cartItems w)
     \<and> tbl_cartItems w' =
         filter (\<lambda>ci. cartItem_id ci \<notin> cartItem_id ` fst ` set (user_cart user w))
           (tbl_cartItems w)
     \<and> (distinct (map cartItem_id (tbl_cartItems w)) \<longrightarrow>
          tbl_cartItems w' =
            filter (\<lambda>ci. ci \<notin> fst ` set (user_cart user w)) (tbl_cartItems w))"
proof -
  let ?cart = "user_cart user w"
  from reduce_cart_live [OF assms(3)] obtain amount
    where amount: "reduce_cart ?cart 0 = Inr amount" by blast
  with assms(4) obtain ch
    where ch: "stripe \<lparr>cr_amount = amount, cr_currency = ''USD'', cr_source = token\<rparr> = Inr ch"
    by blast
  let ?order = "\<lparr>order_id = nextId w, order_total = charge_amount ch, order_charge = charge_id ch,
                 order_items = map (orderItem_of userId) ?cart, order_user = userId\<rparr>"
  let ?w' = "snd (createOrder stripe token req w)"
  from createOrder_charged [OF assms(1,2) amount, of stripe token] ch assms(5,6)
  have res: "createOrder stripe token req w = (Inr ?order, ?w')"
    and orders: "tbl_orders ?w' = tbl_orders w @ [?order]"
    and deleted: "tbl_cartItems ?w' =
       filter (\<lambda>ci. cartItem_id ci \<notin> cartItem_id ` fst ` set ?cart) (tbl_cartItems w)"
    by (simp_all add: Let_def)
  from assms(2) have uid: "user_id user = userId"
    by (auto dest: find_SomeD)
  have cart: "map fst ?cart = filter (\<lambda>ci. cartItem_user ci = userId) (tbl_cartItems w)"
    by (simp add: map_fst_user_cart uid)
  then have cart_set: "fst ` set ?cart = set (filter (\<lambda>ci. cartItem_user ci = userId) (tbl_cartItems w))"
    by (metis set_map)
  have snapshots: "list_all2
         (\<lambda>snapshot cartItem. \<exists>item. snd cartItem = Some item
            \<and> map_of snapshot ''title'' = Some (Str (item_title item))
            \<and> map_of snapshot ''description'' = Some (Str (item_description item))
            \<and> map_of snapshot ''image'' = Some (Str (item_image item))
            \<and> map_of snapshot ''largeImage'' = Some (Str (item_largeImage item))
            \<and> map_of snapshot ''price'' = Some (Num (item_price item))
            \<and> map_of snapshot ''quantity'' = Some (Num (cartItem_quantity (fst cartItem))))
         (order_items ?order) ?cart"
    unfolding list_all2_map1 list_all2_same Order.simps
  proof
    fix ce assume "ce \<in> set ?cart"
    with assms(3) obtain ci it where "ce = (ci, Some it)"
      by (cases ce) auto
    then show "\<exists>item. snd ce = Some item
            \<and> map_of (orderItem_of userId ce) ''title'' = Some (Str (item_title item))
            \<and> map_of (orderItem_of userId ce) ''description'' = Some (Str (item_description item))
            \<and> map_of (orderItem_of userId ce) ''image'' = Some (Str (item_image item))
            \<and> map_of (orderItem_of userId ce) ''largeImage'' = Some (Str (item_largeImage item))
            \<and> map_of (orderItem_of userId ce) ''price'' = Some (Num (item_price item))
            \<and> map_of (orderItem_of userId ce) ''quantity'' = Some (Num (cartItem_quantity (fst ce)))"
      by (simp add: orderItem_of_live)
  qed
  have gone: "distinct (map cartItem_id (tbl_cartItems w)) \<longrightarrow>
      tbl_cartItems ?w' = filter (\<lambda>ci. ci \<notin> fst ` set ?cart) (tbl_cartItems w)"
  proof
    assume uniq: "distinct (map cartItem_id (tbl_cartItems w))"
    have "tbl_cartItems ?w' = filter (\<lambda>ci. cartItem_user ci \<noteq> userId) (tbl_cartItems w)"
      unfolding deleted cart_set by (rule filter_by_unique_id [OF uniq])
    also have "\<dots> = filter (\<lambda>ci. ci \<notin> fst ` set ?cart) (tbl_cartItems w)"
      unfolding cart_set by (rule filter_cong) auto
    finally show "tbl_cartItems ?w' = filter (\<lambda>ci. ci \<notin> fst ` set ?cart) (tbl_cartItems w)" .
  qed
  from res orders snapshots cart deleted gone show ?thesis
    by blast
qed

theorem createOrder_charge_accepted_witness:
  "createOrder accepting ''tok_visa'' (signed_in bob) shop = (Inr bobs_order, shop_after_checkout)
   \<and> tbl_orders shop_after_checkout = tbl_orders shop @ [bobs_order]
   \<and> length (order_items bobs_order) = length (user_cart bob shop)
   \<and> tbl_cartItems shop_after_checkout =
       filter (\<lambda>ci. ci \<notin> fst ` set (user_cart bob shop)) (tbl_cartItems shop)"
proof -
  have who: "req_userId (signed_in bob) = Some 2"
    "List.find (user_matches (WhereId 2)) (tbl_users shop) = Some bob"
    by (simp_all add: sample_defs)
  have live: "\<forall>ce \<in> set (user_cart bob shop). snd ce \<noteq> None"
    by (simp add: user_cart_bob)
  have accepted: "\<forall>amount. reduce_cart (user_cart bob shop) 0 = Inr amount \<longrightarrow>
      (\<exists>ch. accepting \<lparr>cr_amount = amount, cr_currency = ''USD'', cr_source = ''tok_visa''\<rparr> = Inr ch)"
    by (simp add: accepting_def)
  have writes: "''mutation.createOrder'' \<notin> set (rejects shop)"
    "''mutation.deleteManyCartItems'' \<notin> set (rejects shop)"
    by (simp_all add: shop_def)
  have uniq: "distinct (map cartItem_id (tbl_cartItems shop))"
    by (simp add: shop_def)
  from createOrder_charge_accepted [OF who live accepted writes] uniq
  have "tbl_orders shop_after_checkout = tbl_orders shop @ [bobs_order]
     \<and> length (order_items bobs_order) = length (user_cart bob shop)
     \<and> tbl_cartItems shop_after_checkout =
       filter (\<lambda>ci. ci \<notin> fst ` set (user_cart bob shop)) (tbl_cartItems shop)"
    unfolding createOrder_shop by (auto dest: list_all2_lengthD)
  with createOrder_shop show ?thesis by (simp only: simp_thms)
qed

text \<open>
  Claim C7. Let the request carry an identity whose user the store finds, let every item
  of the cart read at that moment exist, let the payment collaborator accept the charge
  for the amount of that cart, and let the store take the order. Then \<open>createOrder\<close>
  adds exactly one order to the orders table (and returns it when the store also clears
  the cart). Each of its item snapshots is the copy of the fields of the cart entry's item
  (title, price, description, image, largeImage), followed by the entry's quantity and
  the connection to the signed-in user. It has no \<open>id\<close> key, and none of its values is
  an item identifier.
\<close>

theorem createOrder_snapshots:
  assumes "req_userId req = Some userId"
    and "List.find (user_matches (WhereId userId)) (tbl_users w) = Some user"
    and "\<forall>ce \<in> set (user_cart user w). snd ce \<noteq> None"
    and "\<forall>amount. reduce_cart (user_cart user w) 0 = Inr amount \<longrightarrow>
           (\<exists>ch. stripe \<lparr>cr_amount = amount, cr_currency = ''USD'', cr_source = token\<rparr> = Inr ch)"
    and "''mutation.createOrder'' \<notin> set (rejects w)"
  shows "\<exists>res w' order.
       createOrder stripe token req w = (res, w')
     \<and> tbl_orders w' = tbl_orders w @ [order]
     \<and> (''mutation.deleteManyCartItems'' \<notin> set (rejects w) \<longrightarrow> res = Inr order)
     \<and> list_all2
         (\<lambda>snapshot cartItem. \<exists>item. snd cartItem = Some item
            \<and> snapshot =
                [(''title'', Str (item_title item)), (''price'', Num (item_price item)),
                 (''description'', Str (item_description item)),
                 (''image'', Str (item_image item)),
                 (''largeImage'', Str (item_largeImage item)),
                 (''quantity'', Num (cartItem_quantity (fst cartItem))),
                 (''user'', Connect userId)])
         (order_items order) (user_cart user w)
     \<and> (\<forall>snapshot \<in> set (order_items order).
           map_of snapshot ''id'' = None \<and> (\<forall>i. Id i \<notin> snd ` set snapshot))"
proof -
  let ?cart = "user_cart user w"
  from reduce_cart_live [OF assms(3)] obtain amount
    where amount: "reduce_cart ?cart 0 = Inr amount" by blast
  with assms(4) obtain ch
    where ch: "stripe \<lparr>cr_amount = amount, cr_currency = ''USD'', cr_source = token\<rparr> = Inr ch"
    by blast
  let ?order = "\<lparr>order_id = nextId w, order_total = charge_amount ch, order_charge = charge_id ch,
                 order_items = map (orderItem_of userId) ?cart, order_user = userId\<rparr>"
  let ?res = "fst (createOrder stripe token req w)"
  let ?w' = "snd (createOrder stripe token req w)"
  from createOrder_charged [OF assms(1,2) amount, of stripe token] ch assms(5)
  have orders: "tbl_orders ?w' = tbl_orders w @ [?order]"
    and res: "''mutation.deleteManyCartItems'' \<notin> set (rejects w) \<longrightarrow> ?res = Inr ?order"
    by (simp_all add: Let_def)
  have copies: "list_all2
         (\<lambda>snapshot cartItem. \<exists>item. snd cartItem = Some item
            \<and> snapshot =
                [(''title'', Str (item_title item)), (''price'', Num (item_price item)),
                 (''description'', Str (item_description item)),
                 (''image'', Str (item_image item)),
                 (''largeImage'', Str (item_largeImage item)),
                 (''quantity'', Num (cartItem_quantity (fst cartItem))),
                 (''user'', Connect userId)])
         (order_items ?order) ?cart"
    unfolding list_all2_map1 list_all2_same Order.simps
  proof
    fix ce assume "ce \<in> set ?cart"
    with assms(3) obtain ci it where "ce = (ci, Some it)"
      by (cases ce) auto
    then show "\<exists>item. snd ce = Some item
            \<and> orderItem_of userId ce =
                [(''title'', Str (item_title item)), (''price'', Num (item_price item)),
                 (''description'', Str (item_description item)),
                 (''image'', Str (item_image item)),
                 (''largeImage'', Str (item_largeImage item)),
                 (''quantity'', Num (cartItem_quantity (fst ce))),
                 (''user'', Connect userId)]"
      by (simp add: orderItem_of_live)
  qed
  have no_ref: "\<forall>snapshot \<in> set (order_items ?order).
           map_of snapshot ''id'' = None \<and> (\<forall>i. Id i \<notin> snd ` set snapshot)"
    unfolding Order.simps
  proof
    fix snapshot assume "snapshot \<in> set (map (orderItem_of userId) ?cart)"
    then obtain ce where "ce \<in> set ?cart" "snapshot = orderItem_of userId ce" by auto
    with assms(3) obtain ci it where "snapshot = orderItem_of userId (ci, Some it)"
      by (cases ce) auto
    then show "map_of snapshot ''id'' = None \<and> (\<forall>i. Id i \<notin> snd ` set snapshot)"
      by (auto simp add: orderItem_of_live)
  qed
  have "createOrder stripe token req w = (?res, ?w')" by simp
  with orders res copies no_ref show ?thesis by blast
qed

theorem createOrder_snapshots_witness:
  "createOrder accepting ''tok_visa'' (signed_in bob) shop = (Inr bobs_order, shop_after_checkout)
   \<and> tbl_orders shop_after_checkout = tbl_orders shop @ [bobs_order]
   \<and> list_all (\<lambda>snapshot. map_of snapshot ''id'' = None) (order_items bobs_order)
   \<and> map (map fst) (order_items bobs_order) =
       [[''title'', ''price'', ''description'', ''image'', ''largeImage'', ''quantity'', ''user''],
        [''title'', ''price'', ''description'', ''image'', ''largeImage'', ''quantity'', ''user'']]"
proof -
  have who: "req_userId (signed_in bob) = Some 2"
    "List.find (user_matches (WhereId 2)) (tbl_users shop) = Some bob"
    by (simp_all add: sample_defs)
  have live: "\<forall>ce \<in> set (user_cart bob shop). snd ce \<noteq> None"
    by (simp add: user_cart_bob)
  have accepted: "\<forall>amount. reduce_cart (user_cart bob shop) 0 = Inr amount \<longrightarrow>
      (\<exists>ch. accepting \<lparr>cr_amount = amount, cr_currency = ''USD'', cr_source = ''tok_visa''\<rparr> = Inr ch)"
    by (simp add: accepting_def)
  have written: "''mutation.createOrder'' \<notin> set (rejects shop)"
    and cleared: "''mutation.deleteManyCartItems'' \<notin> set (rejects shop)"
    by (simp_all add: shop_def)
  from createOrder_snapshots [OF who live accepted written] cleared
  have "tbl_orders shop_after_checkout = tbl_orders shop @ [bobs_order]
     \<and> (\<forall>snapshot \<in> set (order_items bobs_order). map_of snapshot ''id'' = None)"
    unfolding createOrder_shop by auto
  then have "tbl_orders shop_after_checkout = tbl_orders shop @ [bobs_order]
     \<and> list_all (\<lambda>snapshot. map_of snapshot ''id'' = None) (order_items bobs_order)"
    by (simp add: list_all_iff)
  moreover have "map (map fst) (order_items bobs_order) =
       [[''title'', ''price'', ''description'', ''image'', ''largeImage'', ''quantity'', ''user''],
        [''title'', ''price'', ''description'', ''image'', ''largeImage'', ''quantity'', ''user'']]"
    by (simp add: bobs_order_def)
  ultimately show ?thesis using createOrder_shop by (simp only: simp_thms)
qed

section \<open>Properties of the authorisation checks\<close>

text \<open>
  Claim C4. The claim fails on \<open>deleteItem\<close>: its guard throws when the caller does not
  own the item and does hold \<open>ADMIN\<close> or \<open>ITEMDELETE\<close>. In the sample store Bob, who
  holds only \<open>USER\<close> and does not own Alice's shoes, deletes them; Carol, an
  administrator who does not own them either, is refused.
\<close>

theorem deleteItem_guard_inverted:
  "deleteItem 10 (signed_in bob) shop =
     (Inr shoes,
      shop\<lparr>tbl_items := [coat],
           trace := [Db ''query.item'' [], Db ''mutation.deleteItem'' []]\<rparr>)
   \<and> deleteItem 10 (signed_in carol) shop =
     (Inl (Error ''You don't have permission to do that!''),
      shop\<lparr>trace := [Db ''query.item'' []]\<rparr>)"
  by (simp add: deleteItem_def db_query_item_def db_mutation_deleteItem_def logcall_def
      sample_defs Let_def)

text \<open>
  Claim C6. The claim fails on the \<open>order\<close> query: its guard throws unless the caller
  both owns the order and holds \<open>ADMIN\<close>. In the sample store Bob, who owns order 30
  and holds only \<open>USER\<close>, is refused his own order, and so is Carol, an administrator
  who does not own it.
\<close>

theorem order_query_owner_rejected:
  "order_query 30 (signed_in bob) shop =
     (Inl (Error ''You do not have permissions to see this order''),
      shop\<lparr>trace := [Db ''query.order'' []]\<rparr>)
   \<and> order_query 30 (signed_in carol) shop =
     (Inl (Error ''You do not have permissions to see this order''),
      shop\<lparr>trace := [Db ''query.order'' []]\<rparr>)"
  by (simp add: order_query_def db_query_order_def logcall_def sample_defs Let_def)

theorem order_query_owner_rejected_witness:
  "order_user (hd (tbl_orders shop)) = user_id bob
   \<and> fst (order_query 30 (signed_in bob) shop) =
       Inl (Error ''You do not have permissions to see this order'')"
  using order_query_owner_rejected
  by (simp add: sample_defs)

section \<open>Properties of the session guard\<close>

text \<open>
  Claim C5, as stated, fails: with no identity attached, \<open>updateItem\<close> updates the item,
  \<open>deleteItem\<close> and \<open>removeFromCart\<close> query the store before they fail with another
  error, \<open>signout\<close> succeeds, and \<open>requestReset\<close> and \<open>resetPassword\<close>, which serve
  users who cannot sign in, query and update the store.
\<close>

theorem unauthenticated_mutations_proceed:
  "updateItem [(''id'', Id 10), (''price'', Num 1)] anonymous shop =
     (Inr (shoes\<lparr>item_price := 1\<rparr>),
      shop\<lparr>tbl_items := [shoes\<lparr>item_price := 1\<rparr>, coat],
           trace := [Db ''mutation.updateItem'' [(''price'', Num 1)]]\<rparr>)
   \<and> deleteItem 10 anonymous shop = (Inl TypeError, shop\<lparr>trace := [Db ''query.item'' []]\<rparr>)
   \<and> removeFromCart 20 anonymous shop =
       (Inl (Error ''Cheating??? :O''), shop\<lparr>trace := [Db ''query.cartItem'' []]\<rparr>)
   \<and> signout anonymous shop = (Inr ''Goodbye!'', shop\<lparr>trace := [ClearCookie]\<rparr>)
   \<and> requestReset ''0badc0de'' 7000000 ''bob@shop.test'' anonymous shop =
       (Inr ''Thanks!'',
        shop\<lparr>tbl_users :=
               [alice,
                bob\<lparr>user_resetToken := Some ''0badc0de'', user_resetTokenExpiry := Some 10600000\<rparr>,
                carol],
             trace := [Db ''query.user'' [],
                       Db ''mutation.updateUser''
                         [(''resetToken'', Str ''0badc0de''), (''resetTokenExpiry'', Num 10600000)],
                       Mail ''bob@shop.test'']\<rparr>)
   \<and> resetPassword bcrypt_stub 8600000
        \<lparr>password = ''s3cret'', confirmPassword = ''s3cret'', resetToken = ''c0ffee''\<rparr>
        anonymous shop =
       (Inr (alice\<lparr>user_password := ''bcrypt:s3cret'', user_resetToken := None,
                   user_resetTokenExpiry := None\<rparr>),
        shop\<lparr>tbl_users :=
               [alice\<lparr>user_password := ''bcrypt:s3cret'', user_resetToken := None,
                      user_resetTokenExpiry := None\<rparr>, bob, carol],
             trace := [Db ''query.users'' [],
                       Db ''mutation.updateUser''
                         [(''password'', Str ''bcrypt:s3cret''), (''resetToken'', Null),
                          (''resetTokenExpiry'', Null)],
                       SetCookie 1]\<rparr>)"
  by (simp add: updateItem_def db_mutation_updateItem_def apply_item_data_def
      deleteItem_def db_query_item_def removeFromCart_def db_query_cartItem_def
      signout_def requestReset_def db_query_user_def db_mutation_updateUser_def
      apply_user_data_def resetPassword_def db_query_users_def bcrypt_stub_def
      logcall_def sample_defs Let_def)

text \<open>
  Claim C5, amended. With no identity attached to the request, \<open>createItem\<close>,
  \<open>updatePermissions\<close>, \<open>addToCart\<close> and \<open>createOrder\<close> fail with the error that the
  caller must be logged in, and the world is the one they started in: no collaborator was
  called.
\<close>

theorem unauthenticated_guard:
  assumes "req_userId req = None"
  shows "createItem args req w = (Inl (Error ''You must be logged in to do that!''), w)
     \<and> updatePermissions permissions userId req w =
         (Inl (Error ''You must be logged in to do that!''), w)
     \<and> addToCart i req w = (Inl (Error ''You must be logged in to do that!''), w)
     \<and> createOrder stripe token req w =
         (Inl (Error ''You must be logged in to complete this order!''), w)"
  using assms
  by (simp add: createItem_def updatePermissions_def addToCart_def createOrder_def)

theorem unauthenticated_guard_witness:
  "req_userId anonymous = None
   \<and> createItem [(''title'', Str ''Hat'')] anonymous shop =
       (Inl (Error ''You must be logged in to do that!''), shop)
   \<and> updatePermissions [''ADMIN''] 2 anonymous shop =
       (Inl (Error ''You must be logged in to do that!''), shop)
   \<and> addToCart 10 anonymous shop = (Inl (Error ''You must be logged in to do that!''), shop)
   \<and> createOrder accepting ''tok_visa'' anonymous shop =
       (Inl (Error ''You must be logged in to complete this order!''), shop)"
proof -
  have anon: "req_userId anonymous = None"
    by (simp add: anonymous_def)
  from unauthenticated_guard [OF anon] anon show ?thesis
    by simp
qed

section \<open>Properties of the password reset\<close>

text \<open>Records that a unique key picks out of a table.\<close>

lemma find_unique:
  "u \<in> set xs \<Longrightarrow> \<forall>x \<in> set xs. P x \<longleftrightarrow> x = u \<Longrightarrow> List.find P xs = Some u"
  by (induction xs) auto

lemma filter_unique:
  "distinct xs \<Longrightarrow> u \<in> set xs \<Longrightarrow> \<forall>x \<in> set xs. P x \<longleftrightarrow> x = u \<Longrightarrow> filter P xs = [u]"
proof (induction xs)
  case Nil
  then show ?case by simp
next
  case (Cons x xs)
  show ?case
  proof (cases "x = u")
    case True
    with Cons.prems have "\<forall>y \<in> set xs. \<not> P y" by auto
    then have "filter P xs = []" by (simp add: filter_empty_conv)
    with True Cons.prems show ?thesis by simp
  next
    case False
    with Cons show ?thesis by auto
  qed
qed

lemma map_if_unique:
  assumes "\<forall>x \<in> set xs. P x \<longleftrightarrow> x = u"
  shows "map (\<lambda>x. if P x then f x else x) xs = map (\<lambda>x. if x = u then f u else x) xs"
  using assms by (intro map_cong) auto

lemma unique_by_key:
  assumes "distinct (map f xs)" and "u \<in> set xs"
  shows "\<forall>x \<in> set xs. f x = f u \<longleftrightarrow> x = u"
proof
  fix x assume "x \<in> set xs"
  moreover from assms(1) have "inj_on f (set xs)" by (simp add: distinct_map)
  ultimately show "f x = f u \<longleftrightarrow> x = u"
    using assms(2) by (simp add: inj_on_eq_iff)
qed

lemma apply_user_data_reset:
  "apply_user_data [(''password'', Str h), (''resetToken'', Null), (''resetTokenExpiry'', Null)] u =
     u\<lparr>user_password := h, user_resetToken := None, user_resetTokenExpiry := None\<rparr>"
  by (simp add: apply_user_data_def)

text \<open>
  Claim C8. Let the two passwords given agree, and let \<open>u\<close> be the one user who holds
  the reset token, in a store where e-mail addresses are unique. Then \<open>resetPassword\<close>
  succeeds exactly when the stored expiry is at least \<open>now - 3600000\<close>, the boundary
  included: it replaces the password of \<open>u\<close> by the hash of the new one, clears the token
  and its expiry, leaves every other user as it was, and sets the session cookie. When the
  expiry is older, it fails with the invalid-or-expired error and only the query was made.
\<close>

theorem resetPassword_window:
  assumes "password args = confirmPassword args"
    and "distinct (map user_email (tbl_users w))"
    and "u \<in> set (tbl_users w)"
    and "user_resetToken u = Some (resetToken args)"
    and "user_resetTokenExpiry u = Some expiry"
    and "\<forall>v \<in> set (tbl_users w). user_resetToken v = Some (resetToken args) \<longrightarrow> v = u"
  shows "resetPassword hash now args req w =
     (if expiry \<ge> now - 3600000
      then
        (let updatedUser = u\<lparr>user_password := hash (password args), user_resetToken := None,
                             user_resetTokenExpiry := None\<rparr>
         in (Inr updatedUser,
             w\<lparr>tbl_users := map (\<lambda>x. if x = u then updatedUser else x) (tbl_users w),
               trace := trace w @
                 [Db ''query.users'' [],
                  Db ''mutation.updateUser''
                    [(''password'', Str (hash (password args))), (''resetToken'', Null),
                     (''resetTokenExpiry'', Null)],
                  SetCookie (user_id u)]\<rparr>))
      else (Inl (Error ''This token is either invalid or expired!''),
            w\<lparr>trace := trace w @ [Db ''query.users'' []]\<rparr>))"
proof -
  let ?P = "\<lambda>u. user_resetToken u = Some (resetToken args) \<and>
                  (case user_resetTokenExpiry u of
                     None \<Rightarrow> False
                   | Some expiry \<Rightarrow> expiry \<ge> now - 3600000)"
  from assms(2) have dist: "distinct (tbl_users w)"
    by (simp add: distinct_map)
  have email: "\<forall>x \<in> set (tbl_users w). user_matches (WhereEmail (user_email u)) x \<longleftrightarrow> x = u"
    unfolding user_matches.simps by (rule unique_by_key [OF assms(2,3)])
  show ?thesis
  proof (cases "expiry \<ge> now - 3600000")
    case True
    have "\<forall>x \<in> set (tbl_users w). ?P x \<longleftrightarrow> x = u"
    proof (intro ballI iffI)
      fix x assume "x \<in> set (tbl_users w)" and "?P x"
      with assms(6) show "x = u" by blast
    next
      fix x assume "x = u"
      with True assms(4,5) show "?P x" by simp
    qed
    from filter_unique [OF dist assms(3) this]
    have found: "filter ?P (tbl_users w) = [u]" .
    from find_unique [OF assms(3) email]
    have target: "List.find (user_matches (WhereEmail (user_email u))) (tbl_users w) = Some u" .
    from True assms(1) found target map_if_unique [OF email] show ?thesis
      by (simp add: resetPassword_def db_query_users_def db_mutation_updateUser_def
          logcall_def Let_def apply_user_data_reset)
  next
    case False
    have "\<forall>x \<in> set (tbl_users w). \<not> ?P x"
    proof (intro ballI notI)
      fix x assume "x \<in> set (tbl_users w)" and p: "?P x"
      with assms(6) have "x = u" by blast
      with p False assms(5) show False by simp
    qed
    then have "filter ?P (tbl_users w) = []"
      by (simp add: filter_empty_conv)
    with False assms(1) show ?thesis
      by (simp add: resetPassword_def db_query_users_def logcall_def)
  qed
qed

theorem resetPassword_window_witness:
  "resetPassword bcrypt_stub 8600000
     \<lparr>password = ''s3cret'', confirmPassword = ''s3cret'', resetToken = ''c0ffee''\<rparr> anonymous shop =
     (Inr (alice\<lparr>user_password := ''bcrypt:s3cret'', user_resetToken := None,
                 user_resetTokenExpiry := None\<rparr>),
      shop\<lparr>tbl_users :=
             [alice\<lparr>user_password := ''bcrypt:s3cret'', user_resetToken := None,
                    user_resetTokenExpiry := None\<rparr>, bob, carol],
           trace := [Db ''query.users'' [],
                     Db ''mutation.updateUser''
                       [(''password'', Str ''bcrypt:s3cret''), (''resetToken'', Null),
                        (''resetTokenExpiry'', Null)],
                     SetCookie 1]\<rparr>)
   \<and> resetPassword bcrypt_stub 8600001
     \<lparr>password = ''s3cret'', confirmPassword = ''s3cret'', resetToken = ''c0ffee''\<rparr> anonymous shop =
     (Inl (Error ''This token is either invalid or expired!''),
      shop\<lparr>trace := [Db ''query.users'' []]\<rparr>)"
proof -
  let ?args = "\<lparr>password = ''s3cret'', confirmPassword = ''s3cret'', resetToken = ''c0ffee''\<rparr>"
  have h1: "password ?args = confirmPassword ?args" by simp
  have h2: "distinct (map user_email (tbl_users shop))" by (simp add: sample_defs)
  have h3: "alice \<in> set (tbl_users shop)" by (simp add: shop_def)
  have h4: "user_resetToken alice = Some (resetToken ?args)" by (simp add: alice_def)
  have h5: "user_resetTokenExpiry alice = Some 5000000" by (simp add: alice_def)
  have h6: "\<forall>v \<in> set (tbl_users shop). user_resetToken v = Some (resetToken ?args) \<longrightarrow> v = alice"
    by (simp add: shop_def bob_def carol_def)
  show ?thesis
    unfolding resetPassword_window [OF h1 h2 h3 h4 h5 h6]
    by (simp add: Let_def sample_defs bcrypt_stub_def)
qed

section \<open>Properties of the cart\<close>

lemma apply_cartItem_data_quantity:
  "apply_cartItem_data [(''quantity'', Num n)] ci = ci\<lparr>cartItem_quantity := n\<rparr>"
  by (simp add: apply_cartItem_data_def)

text \<open>
  Claim C9. For a signed-in caller, in a store whose cart items have distinct identifiers:
  when the caller's cart has a row for the item, \<open>addToCart\<close> returns the first such row
  with its quantity raised by one, the cart table differs in that row only (so no row is
  added), and the calls are the query and one update; when it has none, the cart table
  grows by exactly one row, of quantity 1, that links the caller and the item.
\<close>

theorem addToCart_increments_or_creates:
  assumes "req_userId req = Some userId"
    and "distinct (map cartItem_id (tbl_cartItems w))"
  shows "case filter (\<lambda>ci. cartItem_user ci = userId \<and> cartItem_item ci = i) (tbl_cartItems w) of
       existingCartItem # others \<Rightarrow>
         (let incremented =
                existingCartItem\<lparr>cartItem_quantity := cartItem_quantity existingCartItem + 1\<rparr>
          in addToCart i req w =
               (Inr incremented,
                w\<lparr>tbl_cartItems :=
                     map (\<lambda>ci. if ci = existingCartItem then incremented else ci) (tbl_cartItems w),
                  trace := trace w @
                    [Db ''query.cartItems'' [],
                     Db ''mutation.updateCartItem''
                       [(''quantity'', Num (cartItem_quantity existingCartItem + 1))]]\<rparr>))
     | [] \<Rightarrow>
         (let created = \<lparr>cartItem_id = nextId w, cartItem_quantity = 1, cartItem_user = userId,
                         cartItem_item = i\<rparr>
          in addToCart i req w =
               (Inr created,
                w\<lparr>tbl_cartItems := tbl_cartItems w @ [created],
                  nextId := Suc (nextId w),
                  trace := trace w @
                    [Db ''query.cartItems'' [],
                     Db ''mutation.createCartItem''
                       [(''user'', Connect userId), (''item'', Connect i)]]\<rparr>))"
proof (cases "filter (\<lambda>ci. cartItem_user ci = userId \<and> cartItem_item ci = i) (tbl_cartItems w)")
  case Nil
  with assms(1) show ?thesis
    by (simp add: addToCart_def db_query_cartItems_def db_mutation_createCartItem_def
        logcall_def fresh_def Let_def)
next
  case (Cons existing others)
  then have "existing \<in> set (filter (\<lambda>ci. cartItem_user ci = userId \<and> cartItem_item ci = i)
      (tbl_cartItems w))"
    by simp
  then have mem: "existing \<in> set (tbl_cartItems w)"
    by simp
  have byid: "\<forall>x \<in> set (tbl_cartItems w). cartItem_id x = cartItem_id existing \<longleftrightarrow> x = existing"
    by (rule unique_by_key [OF assms(2) mem])
  from find_unique [OF mem byid]
  have target: "List.find (\<lambda>ci. cartItem_id ci = cartItem_id existing) (tbl_cartItems w) = Some existing" .
  from assms(1) Cons target map_if_unique [OF byid] show ?thesis
    by (simp add: addToCart_def db_query_cartItems_def db_mutation_updateCartItem_def
        logcall_def Let_def apply_cartItem_data_quantity)
qed

theorem addToCart_increments_or_creates_witness:
  "addToCart 10 (signed_in bob) shop =
     (Inr \<lparr>cartItem_id = 20, cartItem_quantity = 3, cartItem_user = 2, cartItem_item = 10\<rparr>,
      shop\<lparr>tbl_cartItems :=
             [\<lparr>cartItem_id = 20, cartItem_quantity = 3, cartItem_user = 2, cartItem_item = 10\<rparr>,
              \<lparr>cartItem_id = 21, cartItem_quantity = 1, cartItem_user = 2, cartItem_item = 11\<rparr>,
              \<lparr>cartItem_id = 22, cartItem_quantity = 5, cartItem_user = 3, cartItem_item = 10\<rparr>],
           trace := [Db ''query.cartItems'' [],
                     Db ''mutation.updateCartItem'' [(''quantity'', Num 3)]]\<rparr>)
   \<and> addToCart 11 (signed_in carol) shop =
     (Inr \<lparr>cartItem_id = 100, cartItem_quantity = 1, cartItem_user = 3, cartItem_item = 11\<rparr>,
      shop\<lparr>tbl_cartItems := tbl_cartItems shop @
             [\<lparr>cartItem_id = 100, cartItem_quantity = 1, cartItem_user = 3, cartItem_item = 11\<rparr>],
           nextId := 101,
           trace := [Db ''query.cartItems'' [],
                     Db ''mutation.createCartItem'' [(''user'', Connect 3), (''item'', Connect 11)]]\<rparr>)"
proof -
  have uniq: "distinct (map cartItem_id (tbl_cartItems shop))"
    by (simp add: shop_def)
  have b: "req_userId (signed_in bob) = Some 2" and c: "req_userId (signed_in carol) = Some 3"
    by (simp_all add: sample_defs)
  from addToCart_increments_or_creates [OF b uniq, of 10]
    addToCart_increments_or_creates [OF c uniq, of 11]
  show ?thesis
    by (simp add: shop_def Let_def)
qed

section \<open>Properties of updateItem\<close>

text \<open>
  Claim C10. \<open>updateItem\<close> makes one call to the persistence collaborator, an update of
  the item whose \<open>data\<close> is the arguments without the key \<open>id\<close>: the key \<open>id\<close> is
  absent from it and every other key has the value the arguments gave it. The identifiers
  of the items in the store, and their number, are the same after the call.
\<close>

theorem updateItem_payload:
  "\<exists>res w' data.
     updateItem args req w = (res, w')
   \<and> calls_since w w' = [Db ''mutation.updateItem'' data]
   \<and> data = filter (\<lambda>kv. fst kv \<noteq> ''id'') args
   \<and> map_of data ''id'' = None
   \<and> (\<forall>k. k \<noteq> ''id'' \<longrightarrow> map_of data k = map_of args k)
   \<and> map item_id (tbl_items w') = map item_id (tbl_items w)
   \<and> length (tbl_items w') = length (tbl_items w)"
proof -
  let ?data = "AList.delete ''id'' args"
  have none: "map_of ?data ''id'' = None"
    by (simp add: AList.delete_conv')
  have keep: "\<And>it. item_id (apply_item_data ?data it) = item_id it"
    by (simp add: apply_item_data_def none)
  have "map item_id (tbl_items (snd (updateItem args req w))) = map item_id (tbl_items w)"
    by (auto simp add: updateItem_def db_mutation_updateItem_def logcall_def Let_def keep
        split: option.splits val.splits)
  moreover from this have "length (tbl_items (snd (updateItem args req w))) = length (tbl_items w)"
    by (metis length_map)
  moreover have "calls_since w (snd (updateItem args req w)) = [Db ''mutation.updateItem'' ?data]"
    by (auto simp add: updateItem_def db_mutation_updateItem_def logcall_def Let_def calls_since_def
        split: option.splits val.splits)
  moreover have "?data = filter (\<lambda>kv. fst kv \<noteq> ''id'') args"
    unfolding AList.delete_eq by (rule filter_cong) auto
  moreover have "\<forall>k. k \<noteq> ''id'' \<longrightarrow> map_of ?data k = map_of args k"
    by simp
  ultimately show ?thesis
    using none by (intro exI [of _ "fst (updateItem args req w)"]
        exI [of _ "snd (updateItem args req w)"] exI [of _ ?data]) simp
qed

theorem updateItem_payload_witness:
  "updateItem [(''id'', Id 10), (''title'', Str ''Boots''), (''price'', Num 650)]
     (signed_in alice) shop =
     (Inr (shoes\<lparr>item_title := ''Boots'', item_price := 650\<rparr>),
      shop\<lparr>tbl_items := [shoes\<lparr>item_title := ''Boots'', item_price := 650\<rparr>, coat],
           trace := [Db ''mutation.updateItem''
                       [(''title'', Str ''Boots''), (''price'', Num 650)]]\<rparr>)
   \<and> map item_id
        (tbl_items (snd (updateItem [(''id'', Id 10), (''title'', Str ''Boots''), (''price'', Num 650)]
           (signed_in alice) shop))) = [10, 11]"
proof -
  let ?args = "[(''id'', Id 10), (''title'', Str ''Boots''), (''price'', Num 650)]"
  from updateItem_payload [of ?args "signed_in alice" shop]
  have "map item_id (tbl_items (snd (updateItem ?args (signed_in alice) shop))) =
      map item_id (tbl_items shop)"
    by auto
  also have "\<dots> = [10, 11]"
    by (simp add: sample_defs)
  finally have ids: "map item_id (tbl_items (snd (updateItem ?args (signed_in alice) shop))) = [10, 11]" .
  have "updateItem ?args (signed_in alice) shop =
     (Inr (shoes\<lparr>item_title := ''Boots'', item_price := 650\<rparr>),
      shop\<lparr>tbl_items := [shoes\<lparr>item_title := ''Boots'', item_price := 650\<rparr>, coat],
           trace := [Db ''mutation.updateItem''
                       [(''title'', Str ''Boots''), (''price'', Num 650)]]\<rparr>)"
    by (simp add: updateItem_def db_mutation_updateItem_def apply_item_data_def logcall_def
        sample_defs Let_def)
  with ids show ?thesis by (simp only: simp_thms)
qed

end
